theory Spec2Isabelle
  imports Main "HOL-Library.AList"
begin

section \<open>Value trees and errors\<close>

text \<open>
  The exceptions that \<^verbatim>\<open>jsonpatch.py\<close> raises itself (\<open>JsonPatchException\<close>,
  its subclass \<open>JsonPatchConflict\<close>, \<open>ValueError\<close>, the \<open>AssertionError\<close> of
  \<^verbatim>\<open>assert\<close>) and the ones the Python runtime raises for it on the paths the
  module can take (\<open>IndexError\<close>, \<open>KeyError\<close>, \<open>TypeError\<close>,
  \<open>AttributeError\<close>).
\<close>

datatype error =
    JsonPatchException
  | JsonPatchConflict
  | ValueError
  | IndexError
  | KeyError
  | TypeError
  | AttributeError
  | AssertionError

text \<open>
  A document is what \<^verbatim>\<open>json.loads\<close> builds: dicts with string keys, lists and
  scalars. A dict is an association list in insertion order (its keys distinct), which is
  also its iteration order. Floats are left out of the scalars. A document is a tree:
  no sub-object is reachable along two paths.
\<close>

datatype scalar = PyNone | PyBool bool | PyInt int | PyStr string

datatype json = Dict "(string \<times> json) list" | Array "json list" | Scalar scalar

text \<open>The last step of a location as \<^verbatim>\<open>_step\<close> returns it: a dict key or a list index.\<close>

datatype part = Key string | Index int

type_synonym operation = "(string \<times> json) list"

text \<open>
  A mutating call either returns with the document as it now is, or raises with the
  document as it was left at that moment.
\<close>

type_synonym outcome = "(error \<times> json) + json"

section \<open>Python primitives\<close>

text \<open>\<^verbatim>\<open>location.split('/')\<close> and \<^verbatim>\<open>'/'.join(path)\<close>.\<close>

fun split_slash :: "string \<Rightarrow> string list" where
  "split_slash [] = [[]]"
| "split_slash (c # cs) =
     (if c = CHR ''/'' then [] # split_slash cs
      else (case split_slash cs of [] \<Rightarrow> [[c]] | p # ps \<Rightarrow> (c # p) # ps))"

fun join_slash :: "string list \<Rightarrow> string" where
  "join_slash [] = []"
| "join_slash [p] = p"
| "join_slash (p # q # ps) = p @ CHR ''/'' # join_slash (q # ps)"

text \<open>
  \<^verbatim>\<open>int(s)\<close> on a string, as CPython 3 reads it: white space around (the ASCII
  characters tab, line feed, vertical tab, form feed, carriage return and space, and
  of the code points above ASCII that a \<open>char\<close> can hold, U+0085 and U+00A0), an
  optional sign, then decimal digits, where single underscores may separate digits,
  and at most 4300 digits (the default limit on the conversion). \<open>None\<close> stands for
  the \<open>ValueError\<close> of every other string.
\<close>

definition is_space :: "char \<Rightarrow> bool" where
  "is_space c = (c \<in> set [CHR 0x09, CHR 0x0A, CHR 0x0B, CHR 0x0C, CHR 0x0D, CHR 0x20,
                            CHR 0x85, CHR 0xA0])"

definition digit_of :: "char \<Rightarrow> nat option" where
  "digit_of c = map_of [(CHR ''0'', 0), (CHR ''1'', 1), (CHR ''2'', 2), (CHR ''3'', 3),
                        (CHR ''4'', 4), (CHR ''5'', 5), (CHR ''6'', 6), (CHR ''7'', 7),
                        (CHR ''8'', 8), (CHR ''9'', 9)] c"

fun parse_digits :: "nat \<Rightarrow> string \<Rightarrow> nat option" where
  "parse_digits acc [] = None"
| "parse_digits acc (c # cs) =
     (case digit_of c of
        None \<Rightarrow> None
      | Some d \<Rightarrow>
          (case cs of
             [] \<Rightarrow> Some (10 * acc + d)
           | c' # cs' \<Rightarrow>
               if c' = CHR ''_'' then parse_digits (10 * acc + d) cs'
               else parse_digits (10 * acc + d) cs))"

definition digit_count :: "string \<Rightarrow> nat" where
  "digit_count cs = length (filter (\<lambda>c. digit_of c \<noteq> None) cs)"

definition parse_number :: "string \<Rightarrow> nat option" where
  "parse_number cs = (if digit_count cs > 4300 then None else parse_digits 0 cs)"

definition strip :: "string \<Rightarrow> string" where
  "strip s = rev (dropWhile is_space (rev (dropWhile is_space s)))"

definition py_int :: "string \<Rightarrow> int option" where
  "py_int s =
     (case strip s of
        [] \<Rightarrow> None
      | c # cs \<Rightarrow>
          if c = CHR ''-'' then map_option (\<lambda>n. - int n) (parse_number cs)
          else if c = CHR ''+'' then map_option int (parse_number cs)
          else map_option int (parse_number (c # cs)))"

text \<open>
  \<^verbatim>\<open>str(idx)\<close> for the non-negative indices of \<^verbatim>\<open>range\<close>, which stay below
  the length of a list and so far from the 4300 digits where \<^verbatim>\<open>str\<close> would raise.
\<close>

definition digit_char :: "nat \<Rightarrow> char" where
  "digit_char d = ''0123456789'' ! d"

fun str_nat :: "nat \<Rightarrow> string" where
  "str_nat n = (if n < 10 then [digit_char n] else str_nat (n div 10) @ [digit_char (n mod 10)])"

declare str_nat.simps [simp del]

text \<open>
  \<^verbatim>\<open>xs[i]\<close>, \<^verbatim>\<open>del xs[i]\<close> and \<^verbatim>\<open>xs[i] = v\<close> on a list: a negative index counts
  from the end, and an index outside \<open>-len .. len - 1\<close> raises \<open>IndexError\<close>.
\<close>

definition list_index :: "'a list \<Rightarrow> int \<Rightarrow> nat option" where
  "list_index xs i =
     (if 0 \<le> i \<and> i < int (length xs) then Some (nat i)
      else if i < 0 \<and> - int (length xs) \<le> i then Some (nat (int (length xs) + i))
      else None)"

definition list_getitem :: "json list \<Rightarrow> int \<Rightarrow> error + json" where
  "list_getitem xs i = (case list_index xs i of None \<Rightarrow> Inl IndexError | Some j \<Rightarrow> Inr (xs ! j))"

definition list_delitem :: "json list \<Rightarrow> int \<Rightarrow> error + json list" where
  "list_delitem xs i =
     (case list_index xs i of None \<Rightarrow> Inl IndexError | Some j \<Rightarrow> Inr (take j xs @ drop (Suc j) xs))"

definition list_setitem :: "json list \<Rightarrow> int \<Rightarrow> json \<Rightarrow> error + json list" where
  "list_setitem xs i v =
     (case list_index xs i of None \<Rightarrow> Inl IndexError | Some j \<Rightarrow> Inr (xs[j := v]))"

text \<open>\<^verbatim>\<open>xs.insert(i, v)\<close> for \<open>0 \<le> i\<close>, the only case \<^verbatim>\<open>AddOperation\<close> lets through.\<close>

definition list_insert :: "json list \<Rightarrow> int \<Rightarrow> json \<Rightarrow> json list" where
  "list_insert xs i v = take (nat i) xs @ v # drop (nat i) xs"

text \<open>
  \<^verbatim>\<open>subobj[part]\<close>, \<^verbatim>\<open>del subobj[part]\<close> and \<^verbatim>\<open>subobj[part] = value\<close> on the object
  and the last step that \<^verbatim>\<open>locate\<close> returns. \<^verbatim>\<open>locate\<close> returns a string with a
  dict and an integer with a list, and never a scalar; the other combinations are
  there to make the functions total.
\<close>

definition getitem :: "json \<Rightarrow> part \<Rightarrow> error + json" where
  "getitem obj p =
     (case obj of
        Dict kvs \<Rightarrow>
          (case p of
             Key k \<Rightarrow> (case map_of kvs k of None \<Rightarrow> Inl KeyError | Some v \<Rightarrow> Inr v)
           | Index i \<Rightarrow> Inl KeyError)
      | Array xs \<Rightarrow> (case p of Index i \<Rightarrow> list_getitem xs i | Key k \<Rightarrow> Inl TypeError)
      | Scalar s \<Rightarrow> Inl TypeError)"

definition delitem :: "json \<Rightarrow> part \<Rightarrow> error + json" where
  "delitem obj p =
     (case obj of
        Dict kvs \<Rightarrow>
          (case p of
             Key k \<Rightarrow>
               (case map_of kvs k of
                  None \<Rightarrow> Inl KeyError
                | Some v \<Rightarrow> Inr (Dict (AList.delete k kvs)))
           | Index i \<Rightarrow> Inl KeyError)
      | Array xs \<Rightarrow>
          (case p of
             Index i \<Rightarrow> (case list_delitem xs i of Inl e \<Rightarrow> Inl e | Inr ys \<Rightarrow> Inr (Array ys))
           | Key k \<Rightarrow> Inl TypeError)
      | Scalar s \<Rightarrow> Inl TypeError)"

definition setitem :: "json \<Rightarrow> part \<Rightarrow> json \<Rightarrow> error + json" where
  "setitem obj p v =
     (case obj of
        Dict kvs \<Rightarrow>
          (case p of
             Key k \<Rightarrow> Inr (Dict (AList.update k v kvs))
           | Index i \<Rightarrow> Inl TypeError)
      | Array xs \<Rightarrow>
          (case p of
             Index i \<Rightarrow> (case list_setitem xs i v of Inl e \<Rightarrow> Inl e | Inr ys \<Rightarrow> Inr (Array ys))
           | Key k \<Rightarrow> Inl TypeError)
      | Scalar s \<Rightarrow> Inl TypeError)"

text \<open>
  The object that \<^verbatim>\<open>locate\<close> returns is a sub-object of the document, and the
  operations mutate it in place. On a tree that is the document rebuilt with the
  sub-object at that address replaced: \<open>put addr obj new\<close> follows the steps
  \<open>addr\<close> that the walk took from \<open>obj\<close> and puts \<open>new\<close> there.
\<close>

primrec put :: "part list \<Rightarrow> json \<Rightarrow> json \<Rightarrow> json" where
  "put [] obj new = new"
| "put (p # addr) obj new =
     (case getitem obj p of
        Inl e \<Rightarrow> obj
      | Inr child \<Rightarrow> (case setitem obj p (put addr child new) of Inl e \<Rightarrow> obj | Inr obj' \<Rightarrow> obj'))"

text \<open>
  Reading along an address: \<open>follow addr obj\<close> is the sub-object that the steps
  \<open>addr\<close> lead to from \<open>obj\<close>.
\<close>

primrec follow :: "part list \<Rightarrow> json \<Rightarrow> error + json" where
  "follow [] obj = Inr obj"
| "follow (p # addr) obj = (case getitem obj p of Inl e \<Rightarrow> Inl e | Inr child \<Rightarrow> follow addr child)"

section \<open>Path resolution\<close>

text \<open>\<^verbatim>\<open>PatchOperation._step\<close>.\<close>

definition step :: "json \<Rightarrow> string \<Rightarrow> bool \<Rightarrow> error + (json \<times> part)" where
  "step obj loc_part must_exist =
     (case obj of
        Dict kvs \<Rightarrow>
          (case map_of kvs loc_part of
             Some v \<Rightarrow> Inr (v, Key loc_part)
           | None \<Rightarrow>
               if must_exist then Inl JsonPatchConflict else Inr (obj, Key loc_part))
      | Array xs \<Rightarrow>
          (case py_int loc_part of
             None \<Rightarrow> Inl ValueError
           | Some variant \<Rightarrow>
               if variant \<ge> int (length xs)
               then (if must_exist then Inl JsonPatchConflict else Inr (obj, Index variant))
               else (case list_getitem xs variant of
                       Inl e \<Rightarrow> Inl e
                     | Inr v \<Rightarrow> Inr (v, Index variant)))
      | Scalar s \<Rightarrow> Inl ValueError)"

text \<open>
  The loop \<^verbatim>\<open>for part in parts[:-1]: obj, _ = self._step(obj, part)\<close> of
  \<^verbatim>\<open>locate\<close>, which also records the steps taken from the document down to \<open>obj\<close>.
\<close>

fun descend :: "part list \<Rightarrow> json \<Rightarrow> string list \<Rightarrow> error + (part list \<times> json)" where
  "descend addr obj [] = Inr (addr, obj)"
| "descend addr obj (p # ps) =
     (case step obj p True of
        Inl e \<Rightarrow> Inl e
      | Inr (child, loc) \<Rightarrow> descend (addr @ [loc]) child ps)"

text \<open>
  \<^verbatim>\<open>PatchOperation.locate\<close>. The location is whatever the operation holds under its
  action key; anything but a string has no \<^verbatim>\<open>split\<close>. The result is the object
  the last step is taken in, its address in the document and the last step.
\<close>

definition locate :: "json \<Rightarrow> json \<Rightarrow> bool \<Rightarrow> error + (part list \<times> json \<times> part)" where
  "locate obj location last_must_exist =
     (case location of
        Scalar (PyStr s) \<Rightarrow>
          (case split_slash s of
             [] \<Rightarrow> Inl IndexError
           | first # parts \<Rightarrow>
               if first \<noteq> [] then Inl JsonPatchException
               else
                 (case descend [] obj (butlast parts) of
                    Inl e \<Rightarrow> Inl e
                  | Inr (addr, subobj) \<Rightarrow>
                      if parts = [] then Inl IndexError
                      else
                        (case step subobj (last parts) last_must_exist of
                           Inl e \<Rightarrow> Inl e
                         | Inr (child, last_loc) \<Rightarrow> Inr (addr, subobj, last_loc))))
      | _ \<Rightarrow> Inl AttributeError)"

section \<open>The operations\<close>

text \<open>\<^verbatim>\<open>RemoveOperation.apply\<close>.\<close>

definition remove_apply :: "json \<Rightarrow> operation \<Rightarrow> json \<Rightarrow> outcome" where
  "remove_apply location operation obj =
     (case locate obj location True of
        Inl e \<Rightarrow> Inl (e, obj)
      | Inr (addr, subobj, part) \<Rightarrow>
          (case delitem subobj part of
             Inl e \<Rightarrow> Inl (e, obj)
           | Inr subobj' \<Rightarrow> Inr (put addr obj subobj')))"

text \<open>\<^verbatim>\<open>AddOperation.apply\<close>.\<close>

definition add_apply :: "json \<Rightarrow> operation \<Rightarrow> json \<Rightarrow> outcome" where
  "add_apply location operation obj =
     (case map_of operation ''value'' of
        None \<Rightarrow> Inl (KeyError, obj)
      | Some v \<Rightarrow>
          (case locate obj location False of
             Inl e \<Rightarrow> Inl (e, obj)
           | Inr (addr, subobj, part) \<Rightarrow>
               (case subobj of
                  Array xs \<Rightarrow>
                    (case part of
                       Index i \<Rightarrow>
                         if i > int (length xs) \<or> i < 0 then Inl (JsonPatchConflict, obj)
                         else Inr (put addr obj (Array (list_insert xs i v)))
                     | Key k \<Rightarrow> Inl (TypeError, obj))
                | Dict kvs \<Rightarrow>
                    (case part of
                       Key k \<Rightarrow>
                         if map_of kvs k \<noteq> None then Inl (JsonPatchConflict, obj)
                         else Inr (put addr obj (Dict (AList.update k v kvs)))
                     | Index i \<Rightarrow> Inl (TypeError, obj))
                | Scalar s \<Rightarrow> Inl (JsonPatchConflict, obj))))"

text \<open>\<^verbatim>\<open>ReplaceOperation.apply\<close>.\<close>

definition replace_apply :: "json \<Rightarrow> operation \<Rightarrow> json \<Rightarrow> outcome" where
  "replace_apply location operation obj =
     (case map_of operation ''value'' of
        None \<Rightarrow> Inl (KeyError, obj)
      | Some v \<Rightarrow>
          (case locate obj location True of
             Inl e \<Rightarrow> Inl (e, obj)
           | Inr (addr, subobj, part) \<Rightarrow>
               (case subobj of
                  Array xs \<Rightarrow>
                    (case part of
                       Index i \<Rightarrow>
                         if i > int (length xs) \<or> i < 0 then Inl (JsonPatchConflict, obj)
                         else (case setitem subobj part v of
                                 Inl e \<Rightarrow> Inl (e, obj)
                               | Inr subobj' \<Rightarrow> Inr (put addr obj subobj'))
                     | Key k \<Rightarrow> Inl (TypeError, obj))
                | Dict kvs \<Rightarrow>
                    (case part of
                       Key k \<Rightarrow>
                         if map_of kvs k = None then Inl (JsonPatchConflict, obj)
                         else (case setitem subobj part v of
                                 Inl e \<Rightarrow> Inl (e, obj)
                               | Inr subobj' \<Rightarrow> Inr (put addr obj subobj'))
                     | Index i \<Rightarrow> Inl (TypeError, obj))
                | Scalar s \<Rightarrow> Inl (JsonPatchConflict, obj))))"

text \<open>
  \<^verbatim>\<open>MoveOperation.apply\<close>: the removal has happened by the time
  \<^verbatim>\<open>self.operation['to']\<close> is read and the addition is tried.
\<close>

definition move_apply :: "json \<Rightarrow> operation \<Rightarrow> json \<Rightarrow> outcome" where
  "move_apply location operation obj =
     (case locate obj location True of
        Inl e \<Rightarrow> Inl (e, obj)
      | Inr (addr, subobj, part) \<Rightarrow>
          (case getitem subobj part of
             Inl e \<Rightarrow> Inl (e, obj)
           | Inr v \<Rightarrow>
               (case remove_apply location operation obj of
                  Inl r \<Rightarrow> Inl r
                | Inr obj' \<Rightarrow>
                    (case map_of operation ''to'' of
                       None \<Rightarrow> Inl (KeyError, obj')
                     | Some to \<Rightarrow> add_apply to [(''value'', v)] obj'))))"

text \<open>
  Python's \<^verbatim>\<open>==\<close> on documents: \<^verbatim>\<open>True == 1\<close> and \<^verbatim>\<open>False == 0\<close>, lists are
  equal item by item, and dicts are equal when they have as many items and every key
  of the first is in the second with an equal value.
\<close>

fun scalar_eq :: "scalar \<Rightarrow> scalar \<Rightarrow> bool" where
  "scalar_eq PyNone PyNone = True"
| "scalar_eq (PyBool a) (PyBool b) = (a = b)"
| "scalar_eq (PyBool a) (PyInt j) = ((if a then 1 else 0) = j)"
| "scalar_eq (PyInt i) (PyBool b) = (i = (if b then 1 else 0))"
| "scalar_eq (PyInt i) (PyInt j) = (i = j)"
| "scalar_eq (PyStr s) (PyStr t) = (s = t)"
| "scalar_eq _ _ = False"

fun py_eq :: "json \<Rightarrow> json \<Rightarrow> bool"
  and py_eq_list :: "json list \<Rightarrow> json list \<Rightarrow> bool"
  and py_eq_items :: "(string \<times> json) list \<Rightarrow> (string \<times> json) list \<Rightarrow> bool"
where
  "py_eq (Scalar a) (Scalar b) = scalar_eq a b"
| "py_eq (Array xs) (Array ys) = py_eq_list xs ys"
| "py_eq (Dict kvs) (Dict kvs') = (length kvs = length kvs' \<and> py_eq_items kvs kvs')"
| "py_eq _ _ = False"
| "py_eq_list [] [] = True"
| "py_eq_list (x # xs) (y # ys) = (py_eq x y \<and> py_eq_list xs ys)"
| "py_eq_list _ _ = False"
| "py_eq_items [] kvs' = True"
| "py_eq_items ((k, v) # kvs) kvs' =
     (case map_of kvs' k of None \<Rightarrow> False | Some v' \<Rightarrow> py_eq v v' \<and> py_eq_items kvs kvs')"

text \<open>\<^verbatim>\<open>TestOperation.apply\<close>.\<close>

definition test_apply :: "json \<Rightarrow> operation \<Rightarrow> json \<Rightarrow> outcome" where
  "test_apply location operation obj =
     (case map_of operation ''value'' of
        None \<Rightarrow> Inl (KeyError, obj)
      | Some v \<Rightarrow>
          (case locate obj location True of
             Inl e \<Rightarrow> Inl (e, obj)
           | Inr (addr, subobj, part) \<Rightarrow>
               (case getitem subobj part of
                  Inl e \<Rightarrow> Inl (e, obj)
                | Inr found \<Rightarrow>
                    if py_eq found v then Inr obj else Inl (AssertionError, obj))))"

section \<open>The patch\<close>

datatype op_cls =
  RemoveOperation | AddOperation | ReplaceOperation | MoveOperation | TestOperation

text \<open>The table \<^verbatim>\<open>self.operations\<close>, in the order it is written and iterated.\<close>

definition operations :: "(string \<times> op_cls) list" where
  "operations =
     [(''remove'', RemoveOperation), (''add'', AddOperation), (''replace'', ReplaceOperation),
      (''move'', MoveOperation), (''test'', TestOperation)]"

text \<open>\<^verbatim>\<open>JsonPatch._get_operation\<close>: the loop over the table, then the whole method.\<close>

fun get_operation_loop ::
  "(string \<times> op_cls) list \<Rightarrow> operation \<Rightarrow> error + (op_cls \<times> json \<times> operation)" where
  "get_operation_loop [] operation = Inl JsonPatchException"
| "get_operation_loop ((action, cls) # rest) operation =
     (case map_of operation action of
        Some location \<Rightarrow> Inr (cls, location, operation)
      | None \<Rightarrow> get_operation_loop rest operation)"

definition get_operation :: "operation \<Rightarrow> error + (op_cls \<times> json \<times> operation)" where
  "get_operation operation = get_operation_loop operations operation"

text \<open>\<^verbatim>\<open>operation.apply(obj)\<close>, dispatched on the class of the operation.\<close>

fun op_apply :: "op_cls \<Rightarrow> json \<Rightarrow> operation \<Rightarrow> json \<Rightarrow> outcome" where
  "op_apply RemoveOperation = remove_apply"
| "op_apply AddOperation = add_apply"
| "op_apply ReplaceOperation = replace_apply"
| "op_apply MoveOperation = move_apply"
| "op_apply TestOperation = test_apply"

text \<open>\<^verbatim>\<open>JsonPatch.apply\<close> and \<^verbatim>\<open>apply_patch\<close>.\<close>

fun patch_apply :: "operation list \<Rightarrow> json \<Rightarrow> outcome" where
  "patch_apply [] obj = Inr obj"
| "patch_apply (operation # rest) obj =
     (case get_operation operation of
        Inl e \<Rightarrow> Inl (e, obj)
      | Inr (cls, location, operation') \<Rightarrow>
          (case op_apply cls location operation' obj of
             Inl r \<Rightarrow> Inl r
           | Inr obj' \<Rightarrow> patch_apply rest obj'))"

definition apply_patch :: "json \<Rightarrow> operation list \<Rightarrow> outcome" where
  "apply_patch doc patch = patch_apply patch doc"

section \<open>The diff\<close>

text \<open>
  The operations that \<^verbatim>\<open>make_patch\<close> yields, as the dict literals of the source
  build them: the action key with the joined path and, for add and replace, the value.
\<close>

definition remove_op :: "string list \<Rightarrow> operation" where
  "remove_op path = [(''remove'', Scalar (PyStr (join_slash path)))]"

definition add_op :: "string list \<Rightarrow> json \<Rightarrow> operation" where
  "add_op path v = [(''add'', Scalar (PyStr (join_slash path))), (''value'', v)]"

definition replace_op :: "string list \<Rightarrow> json \<Rightarrow> operation" where
  "replace_op path v = [(''replace'', Scalar (PyStr (join_slash path))), (''value'', v)]"

text \<open>
  The generators \<^verbatim>\<open>compare_values\<close>, \<^verbatim>\<open>compare_dict\<close> and \<^verbatim>\<open>compare_list\<close>
  inside \<^verbatim>\<open>make_patch\<close>, as the lists of operations they yield. The first loop of
  \<^verbatim>\<open>compare_dict\<close> runs over the items of \<open>src\<close> (\<open>compare_dict_src\<close>, where
  \<open>src[key]\<close> is the value of the item at hand), the second over those of \<open>dst\<close>
  (\<open>compare_dict_dst\<close>); the loop of
  \<^verbatim>\<open>compare_list\<close> counts \<open>idx\<close> down, and
  \<open>compare_list_loop path src dst (Suc idx)\<close> is its iterations from \<open>idx\<close> to \<open>0\<close>.
\<close>

definition compare_dict_dst ::
    "string list \<Rightarrow> (string \<times> json) list \<Rightarrow> (string \<times> json) list \<Rightarrow> operation list" where
  "compare_dict_dst path src dst =
     concat (map (\<lambda>(key, v). if map_of src key = None then [add_op (path @ [key]) v] else []) dst)"

function compare_values :: "string list \<Rightarrow> json \<Rightarrow> json \<Rightarrow> operation list"
  and compare_dict ::
    "string list \<Rightarrow> (string \<times> json) list \<Rightarrow> (string \<times> json) list \<Rightarrow> operation list"
  and compare_dict_src ::
    "string list \<Rightarrow> (string \<times> json) list \<Rightarrow> (string \<times> json) list \<Rightarrow> operation list"
  and compare_list :: "string list \<Rightarrow> json list \<Rightarrow> json list \<Rightarrow> operation list"
  and compare_list_loop ::
    "string list \<Rightarrow> json list \<Rightarrow> json list \<Rightarrow> nat \<Rightarrow> operation list"
where
  "compare_values path v other =
     (case v of
        Dict src \<Rightarrow>
          (case other of
             Dict dst \<Rightarrow> compare_dict path src dst
           | _ \<Rightarrow> [replace_op path other])
      | Array src \<Rightarrow>
          (case other of
             Array dst \<Rightarrow> compare_list path src dst
           | _ \<Rightarrow> [replace_op path other])
      | _ \<Rightarrow> [replace_op path other])"
| "compare_dict path src dst = compare_dict_src path src dst @ compare_dict_dst path src dst"
| "compare_dict_src path [] dst = []"
| "compare_dict_src path ((key, v) # rest) dst =
     (case map_of dst key of
        None \<Rightarrow> [remove_op (path @ [key])]
      | Some w \<Rightarrow> if \<not> py_eq v w then compare_values (path @ [key]) v w else [])
     @ compare_dict_src path rest dst"
| "compare_list path src dst = compare_list_loop path src dst (max (length src) (length dst))"
| "compare_list_loop path src dst 0 = []"
| "compare_list_loop path src dst (Suc idx) =
     (if idx < length src \<and> idx < length dst
      then compare_values (path @ [str_nat idx]) (src ! idx) (dst ! idx)
      else if idx < length dst
      then [add_op (path @ [str_nat idx]) (dst ! idx)]
      else if idx < length src
      then [remove_op (path @ [str_nat idx])]
      else [])
     @ compare_list_loop path src dst idx"
  by pat_completeness auto

termination
  apply (relation "inv_image (less_than <*lex*> less_than) (\<lambda>x. case x of
      Inl (Inl (path, v, other)) \<Rightarrow> (4 * size v, 0)
    | Inl (Inr (path, src, dst)) \<Rightarrow> (4 * size_list (size_prod (\<lambda>x. 0) size) src + 3, 0)
    | Inr (Inl (path, src, dst)) \<Rightarrow> (4 * size_list (size_prod (\<lambda>x. 0) size) src + 2, 0)
    | Inr (Inr (Inl (path, src, dst))) \<Rightarrow> (4 * size_list size src + 3, 0)
    | Inr (Inr (Inr (path, src, dst, n))) \<Rightarrow> (4 * size_list size src + 2, n))")
  apply (rule wf_inv_image, rule wf_lex_prod, rule wf_less_than, rule wf_less_than)
  apply simp_all
  apply (drule conjunct1, drule nth_mem)
  apply (drule size_list_estimation' [where f = size, OF _ order_refl], arith)
  done

declare compare_values.simps [simp del]

text \<open>
  \<^verbatim>\<open>make_patch\<close> hands \<open>src\<close> and \<open>dst\<close> to \<^verbatim>\<open>compare_dict\<close> as they
  are, which iterates and indexes them as dicts: the model takes the items of two dicts.
\<close>

definition make_patch :: "(string \<times> json) list \<Rightarrow> (string \<times> json) list \<Rightarrow> operation list" where
  "make_patch src dst = compare_dict [''''] src dst"

text \<open>Short names for the scalars of the example documents.\<close>

abbreviation JInt :: "int \<Rightarrow> json" where
  "JInt n \<equiv> Scalar (PyInt n)"

abbreviation JStr :: "string \<Rightarrow> json" where
  "JStr s \<equiv> Scalar (PyStr s)"

section \<open>Path resolution and the patch loop: basic facts\<close>

lemma patch_apply_append:
  "patch_apply (xs @ ys) obj =
     (case patch_apply xs obj of Inl r \<Rightarrow> Inl r | Inr obj' \<Rightarrow> patch_apply ys obj')"
  by (induction xs arbitrary: obj) (auto split: sum.splits)

lemma step_True_getitem:
  "step obj p True = Inr (child, loc) \<Longrightarrow> getitem obj loc = Inr child"
  by (auto simp: step_def getitem_def split: json.splits option.splits if_splits sum.splits)

lemma step_True_delitem:
  "step obj p True = Inr (child, loc) \<Longrightarrow> \<exists>obj'. delitem obj loc = Inr obj'"
  by (auto simp: step_def delitem_def list_getitem_def list_delitem_def
      split: json.splits option.splits if_splits sum.splits)

lemma locate_Inr_step:
  "locate obj location lme = Inr (addr, subobj, part) \<Longrightarrow>
     \<exists>child p. step subobj p lme = Inr (child, part)"
  apply (auto simp: locate_def split: json.splits scalar.splits list.splits sum.splits if_splits)
  apply blast
  done

lemma locate_True_getitem:
  "locate obj location True = Inr (addr, subobj, part) \<Longrightarrow> \<exists>v. getitem subobj part = Inr v"
  using locate_Inr_step step_True_getitem by blast

lemma locate_True_delitem:
  "locate obj location True = Inr (addr, subobj, part) \<Longrightarrow> \<exists>s'. delitem subobj part = Inr s'"
  using locate_Inr_step step_True_delitem by blast

lemma step_Inr_container:
  "step obj p lme = Inr (child, loc) \<Longrightarrow>
     (\<exists>kvs k. obj = Dict kvs \<and> loc = Key k) \<or> (\<exists>xs i. obj = Array xs \<and> loc = Index i)"
  by (cases obj) (auto simp: step_def split: option.splits if_splits sum.splits)

lemma locate_parent_container:
  assumes "locate obj location lme = Inr (addr, subobj, part)"
  shows "(\<exists>kvs k. subobj = Dict kvs \<and> part = Key k) \<or> (\<exists>xs i. subobj = Array xs \<and> part = Index i)"
proof -
  from locate_Inr_step [OF assms] obtain child p where "step subobj p lme = Inr (child, part)"
    by blast
  then show ?thesis by (rule step_Inr_container)
qed

lemma descend_append:
  "descend addr obj (pre @ ps) =
     (case descend addr obj pre of Inl e \<Rightarrow> Inl e | Inr (addr', obj') \<Rightarrow> descend addr' obj' ps)"
  by (induction pre arbitrary: addr obj) (auto split: sum.splits)

lemma locate_last_step:
  assumes "split_slash s = [] # pre @ [seg]" and "descend [] obj pre = Inr (addr, parent)"
  shows "locate obj (JStr s) lme =
     (case step parent seg lme of
        Inl e \<Rightarrow> Inl e
      | Inr (child, last_loc) \<Rightarrow> Inr (addr, parent, last_loc))"
  using assms by (simp add: locate_def)

lemma locate_step_error:
  assumes path: "split_slash s = [] # pre @ seg # rest"
      and walk: "descend [] obj pre = Inr (addr, container)"
      and err: "step container seg (rest \<noteq> [] \<or> lme) = Inl e"
  shows "locate obj (JStr s) lme = Inl e"
proof (cases "rest = []")
  case True
  then show ?thesis using locate_last_step [of s pre seg obj addr container lme] path walk err
    by simp
next
  case False
  then have b: "butlast (pre @ seg # rest) = pre @ seg # butlast rest" by (simp add: butlast_append)
  have "descend [] obj (butlast (pre @ seg # rest)) = Inl e"
    using err False by (simp add: b descend_append walk)
  then show ?thesis using path by (simp add: locate_def)
qed

lemma op_apply_locate_error:
  assumes "locate obj location (cls \<noteq> AddOperation) = Inl e"
      and "cls \<in> {AddOperation, ReplaceOperation, TestOperation} \<longrightarrow> map_of operation ''value'' \<noteq> None"
  shows "op_apply cls location operation obj = Inl (e, obj)"
  using assms
  by (cases cls)
     (auto simp: remove_apply_def add_apply_def replace_apply_def move_apply_def test_apply_def)

lemma update_new_key: "map_of kvs k = None \<Longrightarrow> AList.update k v kvs = kvs @ [(k, v)]"
  by (induction kvs) (auto split: if_splits)

text \<open>
  The address that the walk records leads to the object it returns, and \<open>put\<close>
  replaces exactly that object.
\<close>

lemma follow_append:
  "follow (xs @ ys) obj = (case follow xs obj of Inl e \<Rightarrow> Inl e | Inr x \<Rightarrow> follow ys x)"
  by (induction xs arbitrary: obj) (auto split: sum.splits)

lemma descend_follow:
  "descend addr0 obj0 ps = Inr (addr, sub) \<Longrightarrow>
     \<exists>addr'. addr = addr0 @ addr' \<and> follow addr' obj0 = Inr sub"
proof (induction ps arbitrary: addr0 obj0)
  case Nil
  then show ?case by simp
next
  case (Cons p ps)
  then obtain child loc where st: "step obj0 p True = Inr (child, loc)"
      and d: "descend (addr0 @ [loc]) child ps = Inr (addr, sub)"
    by (auto split: sum.splits)
  from Cons.IH [OF d] obtain addr' where a: "addr = (addr0 @ [loc]) @ addr'" "follow addr' child = Inr sub"
    by blast
  have "follow (loc # addr') obj0 = Inr sub"
    using step_True_getitem [OF st] a by simp
  with a show ?case by auto
qed

lemma setitem_getitem:
  assumes "getitem obj p = Inr child"
  shows "\<exists>obj'. setitem obj p y = Inr obj' \<and> getitem obj' p = Inr y"
proof (cases obj)
  case (Dict kvs)
  with assms obtain k where "p = Key k" by (cases p) (auto simp: getitem_def)
  with Dict show ?thesis by (simp add: setitem_def getitem_def update_conv')
next
  case (Array xs)
  with assms obtain i where p: "p = Index i" by (cases p) (auto simp: getitem_def)
  with assms Array obtain j where j: "list_index xs i = Some j"
    by (auto simp: getitem_def list_getitem_def split: option.splits)
  then have l: "j < length xs" by (auto simp: list_index_def split: if_splits)
  have "list_index (xs[j := y]) i = Some j"
    using j by (auto simp: list_index_def split: if_splits)
  with Array p j l show ?thesis
    by (simp add: setitem_def getitem_def list_setitem_def list_getitem_def)
next
  case (Scalar s)
  with assms show ?thesis by (simp add: getitem_def)
qed

lemma follow_put:
  "follow addr obj = Inr x \<Longrightarrow> follow addr (put addr obj new) = Inr new"
proof (induction addr arbitrary: obj)
  case Nil
  then show ?case by simp
next
  case (Cons p addr)
  then obtain child where c: "getitem obj p = Inr child" "follow addr child = Inr x"
    by (auto split: sum.splits)
  obtain obj' where o: "setitem obj p (put addr child new) = Inr obj'"
      "getitem obj' p = Inr (put addr child new)"
    using setitem_getitem [OF c(1)] by blast
  show ?case using c o Cons.IH [OF c(2)] by simp
qed

lemma put_located:
  assumes "descend [] obj pre = Inr (addr, parent)"
  shows "follow addr obj = Inr parent \<and> follow addr (put addr obj new) = Inr new"
  using descend_follow [OF assms] follow_put by auto

section \<open>The diff against the patch engine\<close>

text \<open>
  C1. The claim: for all \<open>src\<close> and \<open>dst\<close>, the patch of \<open>make_patch src dst\<close>
  applies to \<open>src\<close> without a failure and gives \<open>dst\<close>. On the code it fails: for
  \<open>src = {'a': []}\<close> and \<open>dst = {'a': [1, 2]}\<close> the patch is add \<open>/a/1\<close>, then add
  \<open>/a/0\<close>, and its first operation raises \<open>JsonPatchConflict\<close> on \<open>src\<close>, which is
  left as it was.
\<close>

theorem make_patch_apply_raises_conflict:
  "make_patch [(''a'', Array [])] [(''a'', Array [JInt 1, JInt 2])] =
     [[(''add'', JStr ''/a/1''), (''value'', JInt 2)], [(''add'', JStr ''/a/0''), (''value'', JInt 1)]]
   \<and> patch_apply (make_patch [(''a'', Array [])] [(''a'', Array [JInt 1, JInt 2])])
         (Dict [(''a'', Array [])])
       = Inl (JsonPatchConflict, Dict [(''a'', Array [])])"
  by code_simp

text \<open>
  C2. The claim: \<^verbatim>\<open>compare_list\<close> visits the indices from the highest down, and every
  operation it yields resolves when the patch is applied in order. The order is as
  claimed, and the operations do not all resolve: from \<open>[1]\<close> to \<open>[1, 2, 3]\<close> under
  the key \<open>numbers\<close> the first operation yielded is the add at index 2, and applied to
  the list of length 1 it raises \<open>JsonPatchConflict\<close>.
\<close>

theorem compare_list_descending_add_raises_conflict:
  "compare_list ['''', ''numbers''] [JInt 1] [JInt 1, JInt 2, JInt 3] =
     [add_op ['''', ''numbers'', ''2''] (JInt 3),
      add_op ['''', ''numbers'', ''1''] (JInt 2),
      replace_op ['''', ''numbers'', ''0''] (JInt 1)]
   \<and> add_op ['''', ''numbers'', ''2''] (JInt 3) = [(''add'', JStr ''/numbers/2''), (''value'', JInt 3)]
   \<and> patch_apply [add_op ['''', ''numbers'', ''2''] (JInt 3)] (Dict [(''numbers'', Array [JInt 1])])
       = Inl (JsonPatchConflict, Dict [(''numbers'', Array [JInt 1])])"
  by code_simp

section \<open>Negative indices\<close>

text \<open>
  C9. The claim: a step into a list takes a non-negative index, and a remove at \<open>/-1\<close>
  raises \<open>JsonPatchConflict\<close>. On the code \<^verbatim>\<open>int\<close> reads the sign, \<^verbatim>\<open>_step\<close> only
  checks \<open>variant >= len(obj)\<close>, and the remove at \<open>/-1\<close> deletes the last element of
  \<open>[1, 2, 3]\<close>.
\<close>

theorem remove_negative_index_deletes_last:
  "step (Array [JInt 1, JInt 2, JInt 3]) ''-1'' True = Inr (JInt 3, Index (- 1))
   \<and> patch_apply [[(''remove'', JStr ''/-1'')]] (Array [JInt 1, JInt 2, JInt 3])
       = Inr (Array [JInt 1, JInt 2])"
  by code_simp

section \<open>Move\<close>

text \<open>
  C4. A move from \<open>p\<close> to \<open>q\<close>: when \<open>p\<close> does not resolve (every step required to
  exist), the move raises that error and the document is untouched. When it resolves,
  the value \<open>v\<close> found there is read, the remove at \<open>p\<close> succeeds, and the move is the
  add of \<open>v\<close> at \<open>q\<close> applied to the document the remove has produced.
\<close>

theorem move_is_remove_then_add:
  assumes "map_of operation ''to'' = Some q"
  shows "(\<forall>e. locate obj p True = Inl e \<longrightarrow> move_apply p operation obj = Inl (e, obj)) \<and>
         (\<forall>addr subobj part. locate obj p True = Inr (addr, subobj, part) \<longrightarrow>
            (\<exists>v subobj'. getitem subobj part = Inr v \<and> delitem subobj part = Inr subobj' \<and>
               remove_apply p operation obj = Inr (put addr obj subobj') \<and>
               move_apply p operation obj = add_apply q [(''value'', v)] (put addr obj subobj')))"
proof (intro conjI allI impI)
  fix e assume "locate obj p True = Inl e"
  then show "move_apply p operation obj = Inl (e, obj)" by (simp add: move_apply_def)
next
  fix addr subobj part
  assume loc: "locate obj p True = Inr (addr, subobj, part)"
  obtain v where v: "getitem subobj part = Inr v" using locate_True_getitem [OF loc] by blast
  obtain s' where s': "delitem subobj part = Inr s'" using locate_True_delitem [OF loc] by blast
  have rm: "remove_apply p operation obj = Inr (put addr obj s')"
    by (simp add: remove_apply_def loc s')
  have "move_apply p operation obj = add_apply q [(''value'', v)] (put addr obj s')"
    by (simp add: move_apply_def loc v rm assms)
  with v s' rm show "\<exists>v subobj'. getitem subobj part = Inr v \<and> delitem subobj part = Inr subobj' \<and>
               remove_apply p operation obj = Inr (put addr obj subobj') \<and>
               move_apply p operation obj = add_apply q [(''value'', v)] (put addr obj subobj')"
    by blast
qed

theorem move_is_remove_then_add_witness:
  "map_of [(''move'', JStr ''/0''), (''to'', JStr ''/1'')] ''to'' = Some (JStr ''/1'') \<and>
   locate (Array [JInt 10, JInt 20, JInt 30]) (JStr ''/0'') True
     = Inr ([], Array [JInt 10, JInt 20, JInt 30], Index 0) \<and>
   remove_apply (JStr ''/0'') [(''move'', JStr ''/0''), (''to'', JStr ''/1'')]
       (Array [JInt 10, JInt 20, JInt 30]) = Inr (Array [JInt 20, JInt 30]) \<and>
   move_apply (JStr ''/0'') [(''move'', JStr ''/0''), (''to'', JStr ''/1'')]
       (Array [JInt 10, JInt 20, JInt 30])
     = add_apply (JStr ''/1'') [(''value'', JInt 10)] (Array [JInt 20, JInt 30]) \<and>
   move_apply (JStr ''/0'') [(''move'', JStr ''/0''), (''to'', JStr ''/1'')]
       (Array [JInt 10, JInt 20, JInt 30]) = Inr (Array [JInt 20, JInt 10, JInt 30])"
proof -
  let ?op = "[(''move'', JStr ''/0''), (''to'', JStr ''/1'')]"
  let ?doc = "Array [JInt 10, JInt 20, JInt 30]"
  have h: "map_of ?op ''to'' = Some (JStr ''/1'')" by simp
  have loc: "locate ?doc (JStr ''/0'') True = Inr ([], ?doc, Index 0)" by code_simp
  have g: "getitem ?doc (Index 0) = Inr (JInt 10)" by code_simp
  have d: "delitem ?doc (Index 0) = Inr (Array [JInt 20, JInt 30])" by code_simp
  have a: "add_apply (JStr ''/1'') [(''value'', JInt 10)] (Array [JInt 20, JInt 30])
      = Inr (Array [JInt 20, JInt 10, JInt 30])" by code_simp
  from move_is_remove_then_add [OF h, of ?doc "JStr ''/0''"] loc
  obtain v s' where "getitem ?doc (Index 0) = Inr v" "delitem ?doc (Index 0) = Inr s'"
      "remove_apply (JStr ''/0'') ?op ?doc = Inr (put [] ?doc s')"
      "move_apply (JStr ''/0'') ?op ?doc = add_apply (JStr ''/1'') [(''value'', v)] (put [] ?doc s')"
    by blast
  with g d have "remove_apply (JStr ''/0'') ?op ?doc = Inr (Array [JInt 20, JInt 30])"
    "move_apply (JStr ''/0'') ?op ?doc = add_apply (JStr ''/1'') [(''value'', JInt 10)] (Array [JInt 20, JInt 30])"
    by simp_all
  with h loc a show ?thesis by simp
qed

section \<open>Test\<close>

text \<open>
  C5. A test operation whose path resolves, reached after the operations before it
  have succeeded: the value at the path is read; when it equals the expected value the
  operation returns with the document as it was and the patch goes on with the next
  operation; when it does not, the \<open>AssertionError\<close> ends the whole application, with
  the document as it was.
\<close>

theorem test_equal_or_assertion:
  assumes disp: "get_operation operation = Inr (TestOperation, location, operation')"
      and val: "map_of operation' ''value'' = Some v"
      and loc: "locate obj location True = Inr (addr, subobj, part)"
      and pre: "patch_apply pre doc = Inr obj"
  shows "\<exists>found. getitem subobj part = Inr found \<and>
           (py_eq found v \<longrightarrow>
              test_apply location operation' obj = Inr obj \<and>
              patch_apply (pre @ operation # post) doc = patch_apply post obj) \<and>
           (\<not> py_eq found v \<longrightarrow>
              test_apply location operation' obj = Inl (AssertionError, obj) \<and>
              patch_apply (pre @ operation # post) doc = Inl (AssertionError, obj))"
proof -
  obtain found where f: "getitem subobj part = Inr found"
    using locate_True_getitem [OF loc] by blast
  have t: "test_apply location operation' obj =
      (if py_eq found v then Inr obj else Inl (AssertionError, obj))"
    by (simp add: test_apply_def val loc f)
  have p: "patch_apply (pre @ operation # post) doc =
      (case test_apply location operation' obj of Inl r \<Rightarrow> Inl r | Inr obj' \<Rightarrow> patch_apply post obj')"
    by (simp add: patch_apply_append pre disp)
  show ?thesis using f t p by auto
qed

theorem test_equal_or_assertion_witness:
  "patch_apply ([] @ [(''test'', JStr ''/foo''), (''value'', JStr ''bar'')] # [])
       (Dict [(''foo'', JStr ''bar'')]) = Inr (Dict [(''foo'', JStr ''bar'')]) \<and>
   patch_apply ([] @ [(''test'', JStr ''/foo''), (''value'', JStr ''qux'')] # [[(''remove'', JStr ''/foo'')]])
       (Dict [(''foo'', JStr ''bar'')]) = Inl (AssertionError, Dict [(''foo'', JStr ''bar'')])"
proof -
  let ?doc = "Dict [(''foo'', JStr ''bar'')]"
  let ?op1 = "[(''test'', JStr ''/foo''), (''value'', JStr ''bar'')]"
  let ?op2 = "[(''test'', JStr ''/foo''), (''value'', JStr ''qux'')]"
  have d1: "get_operation ?op1 = Inr (TestOperation, JStr ''/foo'', ?op1)" by code_simp
  have d2: "get_operation ?op2 = Inr (TestOperation, JStr ''/foo'', ?op2)" by code_simp
  have v1: "map_of ?op1 ''value'' = Some (JStr ''bar'')" by simp
  have v2: "map_of ?op2 ''value'' = Some (JStr ''qux'')" by simp
  have loc: "locate ?doc (JStr ''/foo'') True = Inr ([], ?doc, Key ''foo'')" by code_simp
  have pre: "patch_apply [] ?doc = Inr ?doc" by simp
  have g: "getitem ?doc (Key ''foo'') = Inr (JStr ''bar'')" by code_simp
  have e1: "py_eq (JStr ''bar'') (JStr ''bar'')" by simp
  have e2: "\<not> py_eq (JStr ''bar'') (JStr ''qux'')" by simp
  have "patch_apply ([] @ ?op1 # []) ?doc = patch_apply [] ?doc"
    using test_equal_or_assertion [OF d1 v1 loc pre, of "[]"] g e1 by auto
  moreover have "patch_apply ([] @ ?op2 # [[(''remove'', JStr ''/foo'')]]) ?doc = Inl (AssertionError, ?doc)"
    using test_equal_or_assertion [OF d2 v2 loc pre, of "[[(''remove'', JStr ''/foo'')]]"] g e2 by auto
  ultimately show ?thesis by simp
qed

section \<open>Failure of an operation inside a patch\<close>

text \<open>
  C6, as amended. When the operations before the \<open>i\<close>-th have succeeded and the
  \<open>i\<close>-th fails, \<^verbatim>\<open>JsonPatch.apply\<close> raises that error, whatever operations follow,
  and the document is as the failing operation left it. When the failing operation is
  a move whose removal at the source succeeds, that is the state after the first
  \<open>i - 1\<close> operations with the source removed; in every other case it is exactly the
  state after the first \<open>i - 1\<close> operations.
\<close>

theorem patch_failure_keeps_partial_state:
  assumes pre: "patch_apply pre doc = Inr d1"
      and fail: "patch_apply [operation] d1 = Inl (e, d')"
  shows "patch_apply (pre @ operation # post) doc = Inl (e, d') \<and>
         (\<forall>location operation' d2.
            get_operation operation = Inr (MoveOperation, location, operation') \<and>
            remove_apply location operation' d1 = Inr d2 \<longrightarrow> d' = d2) \<and>
         ((\<forall>location operation' d2.
            get_operation operation = Inr (MoveOperation, location, operation') \<longrightarrow>
            remove_apply location operation' d1 \<noteq> Inr d2) \<longrightarrow> d' = d1)"
proof (intro conjI allI impI)
  show "patch_apply (pre @ operation # post) doc = Inl (e, d')"
    using fail by (auto simp: patch_apply_append pre split: sum.splits)
next
  fix location operation' d2
  assume h: "get_operation operation = Inr (MoveOperation, location, operation') \<and>
            remove_apply location operation' d1 = Inr d2"
  then have m: "move_apply location operation' d1 = Inl (e, d')"
    using fail by (auto split: sum.splits)
  from h obtain addr subobj part where loc: "locate d1 location True = Inr (addr, subobj, part)"
    by (cases "locate d1 location True") (auto simp: remove_apply_def)
  obtain v where v: "getitem subobj part = Inr v" using locate_True_getitem [OF loc] by blast
  show "d' = d2"
    using m h loc v
    by (auto simp: move_apply_def add_apply_def
        split: sum.splits prod.splits option.splits json.splits part.splits if_splits)
next
  assume n: "\<forall>location operation' d2.
            get_operation operation = Inr (MoveOperation, location, operation') \<longrightarrow>
            remove_apply location operation' d1 \<noteq> Inr d2"
  show "d' = d1"
  proof (cases "get_operation operation")
    case (Inl a)
    then show ?thesis using fail by simp
  next
    case (Inr t)
    obtain cls location operation' where t: "t = (cls, location, operation')" by (cases t) auto
    have f: "op_apply cls location operation' d1 = Inl (e, d')"
      using fail Inr t by (auto split: sum.splits)
    show ?thesis
    proof (cases cls)
      case RemoveOperation
      then show ?thesis using f
        by (auto simp: remove_apply_def split: sum.splits prod.splits)
    next
      case AddOperation
      then show ?thesis using f
        by (auto simp: add_apply_def
            split: sum.splits prod.splits option.splits json.splits part.splits if_splits)
    next
      case ReplaceOperation
      then show ?thesis using f
        by (auto simp: replace_apply_def
            split: sum.splits prod.splits option.splits json.splits part.splits if_splits)
    next
      case MoveOperation
      with n Inr t have r: "\<And>d2. remove_apply location operation' d1 \<noteq> Inr d2" by simp
      then obtain r' where "remove_apply location operation' d1 = Inl r'"
        by (cases "remove_apply location operation' d1") auto
      then show ?thesis using f MoveOperation
        by (auto simp: move_apply_def remove_apply_def
            split: sum.splits prod.splits option.splits)
    next
      case TestOperation
      then show ?thesis using f
        by (auto simp: test_apply_def
            split: sum.splits prod.splits option.splits json.splits part.splits if_splits)
    qed
  qed
qed

theorem patch_failure_keeps_partial_state_witness:
  "patch_apply [[(''add'', JStr ''/b''), (''value'', JInt 2)]] (Dict [(''a'', JInt 1)])
     = Inr (Dict [(''a'', JInt 1), (''b'', JInt 2)]) \<and>
   remove_apply (JStr ''/a'') [(''move'', JStr ''/a''), (''to'', JStr ''/x/y'')]
       (Dict [(''a'', JInt 1), (''b'', JInt 2)]) = Inr (Dict [(''b'', JInt 2)]) \<and>
   patch_apply ([[(''add'', JStr ''/b''), (''value'', JInt 2)]]
        @ [(''move'', JStr ''/a''), (''to'', JStr ''/x/y'')] # [[(''remove'', JStr ''/b'')]])
       (Dict [(''a'', JInt 1)])
     = Inl (JsonPatchConflict, Dict [(''b'', JInt 2)]) \<and>
   patch_apply ([[(''add'', JStr ''/b''), (''value'', JInt 2)]]
        @ [(''remove'', JStr ''/zz'')] # [[(''remove'', JStr ''/b'')]])
       (Dict [(''a'', JInt 1)])
     = Inl (JsonPatchConflict, Dict [(''a'', JInt 1), (''b'', JInt 2)])"
proof -
  let ?pre = "[[(''add'', JStr ''/b''), (''value'', JInt 2)]]"
  let ?mv = "[(''move'', JStr ''/a''), (''to'', JStr ''/x/y'')]"
  let ?rm = "[(''remove'', JStr ''/zz'')]"
  let ?post = "[[(''remove'', JStr ''/b'')]]"
  let ?d1 = "Dict [(''a'', JInt 1), (''b'', JInt 2)]"
  have p: "patch_apply ?pre (Dict [(''a'', JInt 1)]) = Inr ?d1" by code_simp
  have gm: "get_operation ?mv = Inr (MoveOperation, JStr ''/a'', ?mv)" by code_simp
  have gr: "get_operation ?rm = Inr (RemoveOperation, JStr ''/zz'', ?rm)" by code_simp
  have r: "remove_apply (JStr ''/a'') ?mv ?d1 = Inr (Dict [(''b'', JInt 2)])" by code_simp
  have f: "patch_apply [?mv] ?d1 = Inl (JsonPatchConflict, Dict [(''b'', JInt 2)])" by code_simp
  have f2: "patch_apply [?rm] ?d1 = Inl (JsonPatchConflict, ?d1)" by code_simp
  have 1: "patch_apply (?pre @ ?mv # ?post) (Dict [(''a'', JInt 1)])
      = Inl (JsonPatchConflict, Dict [(''b'', JInt 2)])"
    using patch_failure_keeps_partial_state [OF p f, of ?post] by blast
  have 2: "patch_apply (?pre @ ?rm # ?post) (Dict [(''a'', JInt 1)]) = Inl (JsonPatchConflict, ?d1)"
    using patch_failure_keeps_partial_state [OF p f2, of ?post] by blast
  show ?thesis using p r 1 2 by blast
qed

text \<open>
  C6 as stated fails: a move whose source resolves and whose destination does not has
  removed the source by the time it raises, so the document is not in the state the
  operations before it produced.
\<close>

theorem patch_failure_state_counterexample:
  "patch_apply [] (Dict [(''a'', JInt 1)]) = Inr (Dict [(''a'', JInt 1)]) \<and>
   patch_apply [[(''move'', JStr ''/a''), (''to'', JStr ''/b/c'')]] (Dict [(''a'', JInt 1)])
     = Inl (JsonPatchConflict, Dict []) \<and>
   Dict [] \<noteq> Dict [(''a'', JInt 1)]"
  by code_simp

section \<open>Add\<close>

text \<open>
  What an add does, given its value and a path that resolves down to the parent of its
  last segment. Parent a list and the segment the integer \<open>k\<close>: it succeeds exactly
  when \<open>0 \<le> k \<le> len\<close>, inserting the value at index \<open>k\<close> and shifting what follows
  to the right (appending when \<open>k = len\<close>), and it raises \<open>JsonPatchConflict\<close> when
  \<open>k > len\<close> or \<open>-len \<le> k < 0\<close>. Parent a dict: it raises \<open>JsonPatchConflict\<close> when
  the key is present and appends the item otherwise. Parent a scalar: it raises
  \<open>ValueError\<close>. A failing add leaves the document as it was.
\<close>

theorem add_apply_cases:
  assumes val: "map_of operation ''value'' = Some v"
      and path: "split_slash s = [] # pre @ [seg]"
      and walk: "descend [] obj pre = Inr (addr, parent)"
  shows "(\<forall>xs k. parent = Array xs \<and> py_int seg = Some k \<longrightarrow>
            (0 \<le> k \<and> k \<le> int (length xs) \<longrightarrow>
               add_apply (JStr s) operation obj =
                 Inr (put addr obj (Array (take (nat k) xs @ v # drop (nat k) xs)))) \<and>
            (int (length xs) < k \<or> (- int (length xs) \<le> k \<and> k < 0) \<longrightarrow>
               add_apply (JStr s) operation obj = Inl (JsonPatchConflict, obj)) \<and>
            (\<not> (0 \<le> k \<and> k \<le> int (length xs)) \<longrightarrow>
               (\<exists>e. add_apply (JStr s) operation obj = Inl (e, obj)))) \<and>
         (\<forall>kvs. parent = Dict kvs \<longrightarrow>
            (map_of kvs seg \<noteq> None \<longrightarrow>
               add_apply (JStr s) operation obj = Inl (JsonPatchConflict, obj)) \<and>
            (map_of kvs seg = None \<longrightarrow>
               add_apply (JStr s) operation obj = Inr (put addr obj (Dict (kvs @ [(seg, v)]))))) \<and>
         (\<forall>sc. parent = Scalar sc \<longrightarrow>
            add_apply (JStr s) operation obj = Inl (ValueError, obj))"
proof -
  note loc = locate_last_step [OF path walk, of False]
  have arr: "\<And>xs k. parent = Array xs \<Longrightarrow> py_int seg = Some k \<Longrightarrow>
      add_apply (JStr s) operation obj =
        (if 0 \<le> k \<and> k \<le> int (length xs)
         then Inr (put addr obj (Array (take (nat k) xs @ v # drop (nat k) xs)))
         else if k < - int (length xs) then Inl (IndexError, obj)
         else Inl (JsonPatchConflict, obj))"
    by (auto simp: add_apply_def val loc step_def list_getitem_def list_index_def list_insert_def)
  have dict: "\<And>kvs. parent = Dict kvs \<Longrightarrow>
      add_apply (JStr s) operation obj =
        (if map_of kvs seg \<noteq> None then Inl (JsonPatchConflict, obj)
         else Inr (put addr obj (Dict (kvs @ [(seg, v)]))))"
    by (auto simp: add_apply_def val loc step_def update_new_key)
  have sc: "\<And>sc. parent = Scalar sc \<Longrightarrow> add_apply (JStr s) operation obj = Inl (ValueError, obj)"
    by (simp add: add_apply_def val loc step_def)
  show ?thesis
  proof (intro conjI allI impI)
    fix xs k assume "parent = Array xs \<and> py_int seg = Some k" "0 \<le> k \<and> k \<le> int (length xs)"
    then show "add_apply (JStr s) operation obj =
                 Inr (put addr obj (Array (take (nat k) xs @ v # drop (nat k) xs)))"
      using arr by simp
  next
    fix xs k assume "parent = Array xs \<and> py_int seg = Some k"
      "int (length xs) < k \<or> (- int (length xs) \<le> k \<and> k < 0)"
    then show "add_apply (JStr s) operation obj = Inl (JsonPatchConflict, obj)"
      using arr [of xs k] by auto
  next
    fix xs k assume "parent = Array xs \<and> py_int seg = Some k" "\<not> (0 \<le> k \<and> k \<le> int (length xs))"
    then show "\<exists>e. add_apply (JStr s) operation obj = Inl (e, obj)"
      using arr [of xs k] by auto
  next
    fix kvs assume "parent = Dict kvs" "map_of kvs seg \<noteq> None"
    then show "add_apply (JStr s) operation obj = Inl (JsonPatchConflict, obj)"
      using dict by simp
  next
    fix kvs assume "parent = Dict kvs" "map_of kvs seg = None"
    then show "add_apply (JStr s) operation obj = Inr (put addr obj (Dict (kvs @ [(seg, v)])))"
      using dict by simp
  next
    fix sc assume "parent = Scalar sc"
    then show "add_apply (JStr s) operation obj = Inl (ValueError, obj)" using sc by simp
  qed
qed

theorem add_apply_cases_witness:
  "add_apply (JStr ''/1'') [(''add'', JStr ''/1''), (''value'', JInt 9)] (Array [JInt 1, JInt 2, JInt 3])
     = Inr (Array [JInt 1, JInt 9, JInt 2, JInt 3]) \<and>
   add_apply (JStr ''/3'') [(''add'', JStr ''/3''), (''value'', JInt 9)] (Array [JInt 1, JInt 2, JInt 3])
     = Inr (Array [JInt 1, JInt 2, JInt 3, JInt 9]) \<and>
   add_apply (JStr ''/4'') [(''add'', JStr ''/4''), (''value'', JInt 9)] (Array [JInt 1, JInt 2, JInt 3])
     = Inl (JsonPatchConflict, Array [JInt 1, JInt 2, JInt 3]) \<and>
   add_apply (JStr ''/baz'') [(''add'', JStr ''/baz''), (''value'', JStr ''qux'')] (Dict [(''foo'', JStr ''bar'')])
     = Inr (Dict [(''foo'', JStr ''bar''), (''baz'', JStr ''qux'')]) \<and>
   add_apply (JStr ''/foo'') [(''add'', JStr ''/foo''), (''value'', JStr ''qux'')] (Dict [(''foo'', JStr ''bar'')])
     = Inl (JsonPatchConflict, Dict [(''foo'', JStr ''bar'')]) \<and>
   add_apply (JStr ''/a/b'') [(''add'', JStr ''/a/b''), (''value'', JInt 1)] (Dict [(''a'', JInt 5)])
     = Inl (ValueError, Dict [(''a'', JInt 5)])"
proof -
  let ?l = "Array [JInt 1, JInt 2, JInt 3]"
  let ?d = "Dict [(''foo'', JStr ''bar'')]"
  let ?s = "Dict [(''a'', JInt 5)]"
  have wl: "descend [] ?l [] = Inr ([], ?l)" by simp
  have wd: "descend [] ?d [] = Inr ([], ?d)" by simp
  have ws: "descend [] ?s [''a''] = Inr ([Key ''a''], JInt 5)" by code_simp
  have i1: "py_int ''1'' = Some 1" by code_simp
  have i3: "py_int ''3'' = Some 3" by code_simp
  have i4: "py_int ''4'' = Some 4" by code_simp
  have 1: "add_apply (JStr ''/1'') [(''add'', JStr ''/1''), (''value'', JInt 9)] ?l
      = Inr (Array [JInt 1, JInt 9, JInt 2, JInt 3])"
    using add_apply_cases [of "[(''add'', JStr ''/1''), (''value'', JInt 9)]" "JInt 9" "''/1''" "[]" "''1''" ?l "[]" ?l]
      wl i1 by simp
  have 2: "add_apply (JStr ''/3'') [(''add'', JStr ''/3''), (''value'', JInt 9)] ?l
      = Inr (Array [JInt 1, JInt 2, JInt 3, JInt 9])"
    using add_apply_cases [of "[(''add'', JStr ''/3''), (''value'', JInt 9)]" "JInt 9" "''/3''" "[]" "''3''" ?l "[]" ?l]
      wl i3 by simp
  have 3: "add_apply (JStr ''/4'') [(''add'', JStr ''/4''), (''value'', JInt 9)] ?l
      = Inl (JsonPatchConflict, ?l)"
    using add_apply_cases [of "[(''add'', JStr ''/4''), (''value'', JInt 9)]" "JInt 9" "''/4''" "[]" "''4''" ?l "[]" ?l]
      wl i4 by simp
  have 4: "add_apply (JStr ''/baz'') [(''add'', JStr ''/baz''), (''value'', JStr ''qux'')] ?d
      = Inr (Dict [(''foo'', JStr ''bar''), (''baz'', JStr ''qux'')])"
    using add_apply_cases [of "[(''add'', JStr ''/baz''), (''value'', JStr ''qux'')]" "JStr ''qux''" "''/baz''" "[]" "''baz''" ?d "[]" ?d]
      wd by simp
  have 5: "add_apply (JStr ''/foo'') [(''add'', JStr ''/foo''), (''value'', JStr ''qux'')] ?d
      = Inl (JsonPatchConflict, ?d)"
    using add_apply_cases [of "[(''add'', JStr ''/foo''), (''value'', JStr ''qux'')]" "JStr ''qux''" "''/foo''" "[]" "''foo''" ?d "[]" ?d]
      wd by simp
  have 6: "add_apply (JStr ''/a/b'') [(''add'', JStr ''/a/b''), (''value'', JInt 1)] ?s
      = Inl (ValueError, ?s)"
    using add_apply_cases [of "[(''add'', JStr ''/a/b''), (''value'', JInt 1)]" "JInt 1" "''/a/b''" "[''a'']" "''b''" ?s "[Key ''a'']" "JInt 5"]
      ws by simp
  show ?thesis using 1 2 3 4 5 6 by blast
qed

text \<open>
  C3. The claim: an add inserts into a list for \<open>0 \<le> k \<le> len\<close> and raises
  \<open>JsonPatchConflict\<close> otherwise, sets a new key of a dict and raises
  \<open>JsonPatchConflict\<close> for a present one, and raises \<open>JsonPatchConflict\<close> when the
  parent is a scalar. On the code the last part fails: the add at \<open>/a/b\<close> on
  \<open>{'a': 5}\<close> raises \<open>ValueError\<close>. \<^verbatim>\<open>locate\<close> takes its last step in the parent,
  \<^verbatim>\<open>_step\<close> raises \<open>ValueError\<close> on a scalar, and so the branch of
  \<^verbatim>\<open>AddOperation.apply\<close> that raises \<open>JsonPatchConflict\<close> for a parent that is neither
  list nor dict is never reached.
\<close>

theorem add_to_scalar_raises_value_error:
  "locate (Dict [(''a'', JInt 5)]) (JStr ''/a/b'') False = Inl ValueError \<and>
   patch_apply [[(''add'', JStr ''/a/b''), (''value'', JInt 1)]] (Dict [(''a'', JInt 5)])
     = Inl (ValueError, Dict [(''a'', JInt 5)]) \<and>
   ValueError \<noteq> JsonPatchConflict"
  by code_simp

section \<open>Dispatch\<close>



section \<open>Error kinds of the path resolution\<close>

text \<open>
  C8, as amended. A path that resolves down to some container and then meets the
  segment \<open>seg\<close> there. When the container is a list and \<open>seg\<close> is no integer
  literal, or the container is a scalar (the last step of an add or a replace into a
  scalar apart, about which nothing is said here), the operation raises
  \<open>ValueError\<close>. When the container is a dict without the key \<open>seg\<close>, or a list and
  \<open>seg\<close> an index not below its length, and the step must exist (it is not the last
  step of an add), the operation raises \<open>JsonPatchConflict\<close>. For the path under the
  action key (first part; the operation has its value, where it needs one) the
  document is as it was. For the destination path of a move whose source resolves
  (second part) the error is raised after the removal, and the document is left with
  the source removed.
\<close>

theorem step_error_kinds:
  "(split_slash s = [] # pre @ seg # rest \<and> descend [] obj pre = Inr (addr, container) \<and>
    (cls \<in> {AddOperation, ReplaceOperation, TestOperation} \<longrightarrow> map_of operation ''value'' \<noteq> None) \<longrightarrow>
      ((\<exists>xs. container = Array xs \<and> py_int seg = None) \<or>
       ((\<exists>sc. container = Scalar sc) \<and> (rest \<noteq> [] \<or> cls \<notin> {AddOperation, ReplaceOperation})) \<longrightarrow>
         op_apply cls (JStr s) operation obj = Inl (ValueError, obj)) \<and>
      (((\<exists>kvs. container = Dict kvs \<and> map_of kvs seg = None) \<or>
        (\<exists>xs k. container = Array xs \<and> py_int seg = Some k \<and> int (length xs) \<le> k)) \<and>
       (rest \<noteq> [] \<or> cls \<noteq> AddOperation) \<longrightarrow>
         op_apply cls (JStr s) operation obj = Inl (JsonPatchConflict, obj))) \<and>
   (locate obj p True = Inr (addr_s, subobj, part) \<and> delitem subobj part = Inr subobj' \<and>
    map_of operation ''to'' = Some (JStr t) \<and> split_slash t = [] # pre' @ seg' # rest' \<and>
    descend [] (put addr_s obj subobj') pre' = Inr (addr', container') \<longrightarrow>
      ((\<exists>xs. container' = Array xs \<and> py_int seg' = None) \<or>
       ((\<exists>sc. container' = Scalar sc) \<and> rest' \<noteq> []) \<longrightarrow>
         move_apply p operation obj = Inl (ValueError, put addr_s obj subobj')) \<and>
      (((\<exists>kvs. container' = Dict kvs \<and> map_of kvs seg' = None) \<or>
        (\<exists>xs k. container' = Array xs \<and> py_int seg' = Some k \<and> int (length xs) \<le> k)) \<and>
       rest' \<noteq> [] \<longrightarrow>
         move_apply p operation obj = Inl (JsonPatchConflict, put addr_s obj subobj')))"
proof (intro conjI impI)
  assume h: "split_slash s = [] # pre @ seg # rest \<and> descend [] obj pre = Inr (addr, container) \<and>
    (cls \<in> {AddOperation, ReplaceOperation, TestOperation} \<longrightarrow> map_of operation ''value'' \<noteq> None)"
  assume "(\<exists>xs. container = Array xs \<and> py_int seg = None) \<or>
       ((\<exists>sc. container = Scalar sc) \<and> (rest \<noteq> [] \<or> cls \<notin> {AddOperation, ReplaceOperation}))"
  then have "step container seg (rest \<noteq> [] \<or> cls \<noteq> AddOperation) = Inl ValueError"
    by (auto simp: step_def)
  then have "locate obj (JStr s) (cls \<noteq> AddOperation) = Inl ValueError"
    using h by (intro locate_step_error) auto
  then show "op_apply cls (JStr s) operation obj = Inl (ValueError, obj)"
    using h by (intro op_apply_locate_error) auto
next
  assume h: "split_slash s = [] # pre @ seg # rest \<and> descend [] obj pre = Inr (addr, container) \<and>
    (cls \<in> {AddOperation, ReplaceOperation, TestOperation} \<longrightarrow> map_of operation ''value'' \<noteq> None)"
  assume "((\<exists>kvs. container = Dict kvs \<and> map_of kvs seg = None) \<or>
        (\<exists>xs k. container = Array xs \<and> py_int seg = Some k \<and> int (length xs) \<le> k)) \<and>
       (rest \<noteq> [] \<or> cls \<noteq> AddOperation)"
  then have "step container seg (rest \<noteq> [] \<or> cls \<noteq> AddOperation) = Inl JsonPatchConflict"
    by (auto simp: step_def)
  then have "locate obj (JStr s) (cls \<noteq> AddOperation) = Inl JsonPatchConflict"
    using h by (intro locate_step_error) auto
  then show "op_apply cls (JStr s) operation obj = Inl (JsonPatchConflict, obj)"
    using h by (intro op_apply_locate_error) auto
next
  assume h: "locate obj p True = Inr (addr_s, subobj, part) \<and> delitem subobj part = Inr subobj' \<and>
    map_of operation ''to'' = Some (JStr t) \<and> split_slash t = [] # pre' @ seg' # rest' \<and>
    descend [] (put addr_s obj subobj') pre' = Inr (addr', container')"
  obtain v where v: "getitem subobj part = Inr v" using locate_True_getitem h by blast
  have mv: "move_apply p operation obj = add_apply (JStr t) [(''value'', v)] (put addr_s obj subobj')"
    using h v by (simp add: move_apply_def remove_apply_def)
  assume "(\<exists>xs. container' = Array xs \<and> py_int seg' = None) \<or>
       ((\<exists>sc. container' = Scalar sc) \<and> rest' \<noteq> [])"
  then have "step container' seg' (rest' \<noteq> [] \<or> False) = Inl ValueError"
    by (auto simp: step_def)
  then have "locate (put addr_s obj subobj') (JStr t) False = Inl ValueError"
    using h by (intro locate_step_error) auto
  then show "move_apply p operation obj = Inl (ValueError, put addr_s obj subobj')"
    by (simp add: mv add_apply_def)
next
  assume h: "locate obj p True = Inr (addr_s, subobj, part) \<and> delitem subobj part = Inr subobj' \<and>
    map_of operation ''to'' = Some (JStr t) \<and> split_slash t = [] # pre' @ seg' # rest' \<and>
    descend [] (put addr_s obj subobj') pre' = Inr (addr', container')"
  obtain v where v: "getitem subobj part = Inr v" using locate_True_getitem h by blast
  have mv: "move_apply p operation obj = add_apply (JStr t) [(''value'', v)] (put addr_s obj subobj')"
    using h v by (simp add: move_apply_def remove_apply_def)
  assume "((\<exists>kvs. container' = Dict kvs \<and> map_of kvs seg' = None) \<or>
        (\<exists>xs k. container' = Array xs \<and> py_int seg' = Some k \<and> int (length xs) \<le> k)) \<and>
       rest' \<noteq> []"
  then have "step container' seg' (rest' \<noteq> [] \<or> False) = Inl JsonPatchConflict"
    by (auto simp: step_def)
  then have "locate (put addr_s obj subobj') (JStr t) False = Inl JsonPatchConflict"
    using h by (intro locate_step_error) auto
  then show "move_apply p operation obj = Inl (JsonPatchConflict, put addr_s obj subobj')"
    by (simp add: mv add_apply_def)
qed

theorem step_error_kinds_witness:
  "op_apply RemoveOperation (JStr ''/a/b'') [(''remove'', JStr ''/a/b'')] (Dict [(''a'', JInt 5)])
     = Inl (ValueError, Dict [(''a'', JInt 5)]) \<and>
   op_apply TestOperation (JStr ''/x'') [(''test'', JStr ''/x''), (''value'', JInt 1)] (Array [JInt 1])
     = Inl (ValueError, Array [JInt 1]) \<and>
   op_apply AddOperation (JStr ''/a/b'') [(''add'', JStr ''/a/b''), (''value'', JInt 1)] (Dict [])
     = Inl (JsonPatchConflict, Dict []) \<and>
   op_apply ReplaceOperation (JStr ''/1'') [(''replace'', JStr ''/1''), (''value'', JInt 7)] (Array [JInt 1])
     = Inl (JsonPatchConflict, Array [JInt 1]) \<and>
   move_apply (JStr ''/a'') [(''move'', JStr ''/a''), (''to'', JStr ''/l/x'')]
       (Dict [(''a'', JInt 1), (''l'', Array [])])
     = Inl (ValueError, Dict [(''l'', Array [])]) \<and>
   move_apply (JStr ''/a'') [(''move'', JStr ''/a''), (''to'', JStr ''/b/c/d'')]
       (Dict [(''a'', JInt 1), (''b'', JInt 5)])
     = Inl (ValueError, Dict [(''b'', JInt 5)]) \<and>
   move_apply (JStr ''/a'') [(''move'', JStr ''/a''), (''to'', JStr ''/x/y'')]
       (Dict [(''a'', JInt 1)])
     = Inl (JsonPatchConflict, Dict [])"
proof -
  have ws: "descend [] (Dict [(''a'', JInt 5)]) [''a''] = Inr ([Key ''a''], JInt 5)" by code_simp
  have nx: "py_int ''x'' = None" by code_simp
  have i1: "py_int ''1'' = Some 1" by code_simp
  have 1: "op_apply RemoveOperation (JStr ''/a/b'') [(''remove'', JStr ''/a/b'')] (Dict [(''a'', JInt 5)])
     = Inl (ValueError, Dict [(''a'', JInt 5)])"
    using step_error_kinds [where s = "''/a/b''" and pre = "[''a'']" and seg = "''b''" and rest = "[]"
        and obj = "Dict [(''a'', JInt 5)]" and addr = "[Key ''a'']" and container = "JInt 5"
        and cls = RemoveOperation and operation = "[(''remove'', JStr ''/a/b'')]"] ws by simp
  have 2: "op_apply TestOperation (JStr ''/x'') [(''test'', JStr ''/x''), (''value'', JInt 1)] (Array [JInt 1])
     = Inl (ValueError, Array [JInt 1])"
    using step_error_kinds [where s = "''/x''" and pre = "[]" and seg = "''x''" and rest = "[]"
        and obj = "Array [JInt 1]" and addr = "[]" and container = "Array [JInt 1]"
        and cls = TestOperation and operation = "[(''test'', JStr ''/x''), (''value'', JInt 1)]"] nx by simp
  have 3: "op_apply AddOperation (JStr ''/a/b'') [(''add'', JStr ''/a/b''), (''value'', JInt 1)] (Dict [])
     = Inl (JsonPatchConflict, Dict [])"
    using step_error_kinds [where s = "''/a/b''" and pre = "[]" and seg = "''a''" and rest = "[''b'']"
        and obj = "Dict []" and addr = "[]" and container = "Dict []"
        and cls = AddOperation and operation = "[(''add'', JStr ''/a/b''), (''value'', JInt 1)]"] by simp
  have 4: "op_apply ReplaceOperation (JStr ''/1'') [(''replace'', JStr ''/1''), (''value'', JInt 7)] (Array [JInt 1])
     = Inl (JsonPatchConflict, Array [JInt 1])"
    using step_error_kinds [where s = "''/1''" and pre = "[]" and seg = "''1''" and rest = "[]"
        and obj = "Array [JInt 1]" and addr = "[]" and container = "Array [JInt 1]"
        and cls = ReplaceOperation and operation = "[(''replace'', JStr ''/1''), (''value'', JInt 7)]"] i1 by simp
  let ?o5 = "Dict [(''a'', JInt 1), (''l'', Array [])]"
  have "move_apply (JStr ''/a'') [(''move'', JStr ''/a''), (''to'', JStr ''/l/x'')] ?o5
     = Inl (ValueError, put [] ?o5 (Dict [(''l'', Array [])]))"
    apply (rule step_error_kinds [where p = "JStr ''/a''" and addr_s = "[]" and subobj = ?o5
        and part = "Key ''a''" and t = "''/l/x''"
        and pre' = "[''l'']" and seg' = "''x''" and rest' = "[]" and addr' = "[Key ''l'']"
        and container' = "Array []", THEN conjunct2, THEN mp, THEN conjunct1, THEN mp])
     apply code_simp
    apply (simp add: nx)
    done
  then have 5: "move_apply (JStr ''/a'') [(''move'', JStr ''/a''), (''to'', JStr ''/l/x'')] ?o5
     = Inl (ValueError, Dict [(''l'', Array [])])" by simp
  let ?o6 = "Dict [(''a'', JInt 1), (''b'', JInt 5)]"
  have "move_apply (JStr ''/a'') [(''move'', JStr ''/a''), (''to'', JStr ''/b/c/d'')] ?o6
     = Inl (ValueError, put [] ?o6 (Dict [(''b'', JInt 5)]))"
    apply (rule step_error_kinds [where p = "JStr ''/a''" and addr_s = "[]" and subobj = ?o6
        and part = "Key ''a''" and t = "''/b/c/d''"
        and pre' = "[''b'']" and seg' = "''c''" and rest' = "[''d'']" and addr' = "[Key ''b'']"
        and container' = "JInt 5", THEN conjunct2, THEN mp, THEN conjunct1, THEN mp])
     apply code_simp
    apply simp
    done
  then have 6: "move_apply (JStr ''/a'') [(''move'', JStr ''/a''), (''to'', JStr ''/b/c/d'')] ?o6
     = Inl (ValueError, Dict [(''b'', JInt 5)])" by simp
  let ?o7 = "Dict [(''a'', JInt 1)]"
  have "move_apply (JStr ''/a'') [(''move'', JStr ''/a''), (''to'', JStr ''/x/y'')] ?o7
     = Inl (JsonPatchConflict, put [] ?o7 (Dict []))"
    apply (rule step_error_kinds [where p = "JStr ''/a''" and addr_s = "[]" and subobj = ?o7
        and part = "Key ''a''" and t = "''/x/y''"
        and pre' = "[]" and seg' = "''x''" and rest' = "[''y'']" and addr' = "[]"
        and container' = "Dict []", THEN conjunct2, THEN mp, THEN conjunct2, THEN mp])
     apply code_simp
    apply simp
    done
  then have 7: "move_apply (JStr ''/a'') [(''move'', JStr ''/a''), (''to'', JStr ''/x/y'')] ?o7
     = Inl (JsonPatchConflict, Dict [])" by simp
  show ?thesis using 1 2 3 4 5 6 7 by blast
qed

text \<open>
  C8 as stated fails: a segment that is no number against a list, and a step into a
  scalar, raise \<open>ValueError\<close>, which is not \<open>JsonPatchConflict\<close>.
\<close>

theorem step_value_error_counterexample:
  "step (Array [JInt 1]) ''a'' True = Inl ValueError \<and>
   step (Scalar (PyInt 5)) ''b'' True = Inl ValueError \<and>
   patch_apply [[(''remove'', JStr ''/a'')]] (Array [JInt 1]) = Inl (ValueError, Array [JInt 1]) \<and>
   patch_apply [[(''remove'', JStr ''/a/b'')]] (Dict [(''a'', JInt 5)])
     = Inl (ValueError, Dict [(''a'', JInt 5)]) \<and>
   ValueError \<noteq> JsonPatchConflict"
  by code_simp

section \<open>The empty path\<close>

text \<open>
  C10. For every document and every class of operation, the empty path makes
  \<^verbatim>\<open>locate\<close> raise \<open>IndexError\<close> (the segment list is empty once its first
  element is popped), and the operation raises an error that is neither
  \<open>JsonPatchException\<close> nor \<open>JsonPatchConflict\<close>: that \<open>IndexError\<close>, or the
  \<open>KeyError\<close> of a missing value before the path is looked at. The document is as
  it was.
\<close>

theorem empty_path_raises_index_error:
  "locate obj (JStr []) lme = Inl IndexError \<and>
   (\<exists>e. op_apply cls (JStr []) operation obj = Inl (e, obj) \<and>
        (e = IndexError \<or> e = KeyError) \<and> e \<noteq> JsonPatchException \<and> e \<noteq> JsonPatchConflict) \<and>
   (map_of operation ''value'' \<noteq> None \<or> cls = RemoveOperation \<or> cls = MoveOperation \<longrightarrow>
      op_apply cls (JStr []) operation obj = Inl (IndexError, obj))"
proof -
  have l: "\<And>lme. locate obj (JStr []) lme = Inl IndexError"
    by (simp add: locate_def)
  show ?thesis
    by (cases cls)
       (auto simp: l remove_apply_def add_apply_def replace_apply_def move_apply_def test_apply_def
          split: option.splits)
qed

theorem empty_path_raises_index_error_witness:
  "map_of [(''test'', JStr []), (''value'', JInt 1)] ''value'' \<noteq> None \<and>
   op_apply TestOperation (JStr []) [(''test'', JStr []), (''value'', JInt 1)] (Dict [(''a'', JInt 1)])
     = Inl (IndexError, Dict [(''a'', JInt 1)]) \<and>
   op_apply RemoveOperation (JStr []) [(''remove'', JStr [])] (Array [])
     = Inl (IndexError, Array [])"
proof -
  have v: "map_of [(''test'', JStr []), (''value'', JInt 1)] ''value'' \<noteq> None" by simp
  have 1: "op_apply TestOperation (JStr []) [(''test'', JStr []), (''value'', JInt 1)] (Dict [(''a'', JInt 1)])
     = Inl (IndexError, Dict [(''a'', JInt 1)])"
    using empty_path_raises_index_error
      [of "Dict [(''a'', JInt 1)]" _ TestOperation "[(''test'', JStr []), (''value'', JInt 1)]"] v
    by blast
  have 2: "op_apply RemoveOperation (JStr []) [(''remove'', JStr [])] (Array []) = Inl (IndexError, Array [])"
    using empty_path_raises_index_error [of "Array []" _ RemoveOperation "[(''remove'', JStr [])]"]
    by blast
  show ?thesis using v 1 2 by blast
qed

end
